theory Spec2Isabelle
  imports Main "HOL-Library.Word" "HOL-Library.Sublist"
begin

section \<open>Chat Hub attachment storage: data model\<close>

text \<open>
  The development embeds \<^verbatim>\<open>ChatHubAttachmentService\<close>
  (\<^verbatim>\<open>chat-hub.attachment.service.ts\<close>), \<^verbatim>\<open>ChatHubKnowledgeItemRepository\<close>
  (\<^verbatim>\<open>chat-hub-knowledge-item.repository.ts\<close>) and
  \<^verbatim>\<open>ChatHubKnowledgeItemService.createKnowledgeItem\<close>.

  Every \<^verbatim>\<open>async\<close> method becomes a function from the state of the outside world to
  an outcome and the new state. The outcome is a sum: \<open>Inl\<close> is a thrown error (a rejected
  promise), \<open>Inr\<close> the returned value. The state also carries the log of every call the
  code made to a collaborator, with the outcome of that call.
\<close>

type_synonym bytes = "8 word list"

text \<open>
  The two error classes the code constructs itself, and one constructor for whatever
  else a collaborator may throw.
\<close>

datatype error =
    BadRequestError string
  | NotFoundError string
  | ExternalError string

text \<open>\<^verbatim>\<open>ChatAttachment\<close>: the raw upload, base64 payload with its declared name and type.\<close>

record chatAttachment =
  att_data :: string
  att_mimeType :: string
  att_fileName :: string

text \<open>
  \<^verbatim>\<open>IBinaryData\<close>, with the fields this code reads or writes. \<open>data\<close> is always a
  string (the code calls \<^verbatim>\<open>startsWith\<close> on it unguarded); the other fields are tested
  for truthiness or filled from optional values, so they are optional here.
\<close>

record binaryData =
  data :: string
  mimeType :: "string option"
  fileName :: "string option"
  fileSize :: "string option"
  fileExtension :: "string option"
  id' :: "string option"

text \<open>The argument of \<^verbatim>\<open>FileLocation.ofCustom\<close>.\<close>

record fileLocation =
  sourceType :: string
  pathSegments :: "string list"
  sourceId :: string

text \<open>What \<^verbatim>\<open>getMetadata\<close> answers; only \<^verbatim>\<open>fileSize\<close> is read.\<close>

record metadata =
  meta_fileSize :: nat

text \<open>A \<^verbatim>\<open>Stream.Readable\<close>, identified by the bytes it will deliver.\<close>

datatype readable = Readable bytes

text \<open>
  The second component of what retrieval returns:
  \<^verbatim>\<open>{ type: 'buffer'; buffer; fileSize } | { type: 'stream'; stream; fileSize }\<close>.
\<close>

datatype attachmentContent =
    BufferResult bytes nat
  | StreamResult readable nat

text \<open>The entities, with the columns the code reads or writes.\<close>

record message =
  attachments :: "binaryData list option"

record knowledgeItem =
  ki_id :: string
  ki_type :: string
  ownerId :: string
  ki_attachment :: "binaryData option"

record user =
  user_id :: string

section \<open>Collaborators and the call log\<close>

text \<open>One entry per call to a collaborator: the arguments, then the outcome.\<close>

datatype event =
    Store fileLocation bytes binaryData "error + binaryData"
  | GetMetadata string "error + metadata"
  | GetAsStream string "error + readable"
  | GetAsBuffer binaryData "error + bytes"
  | DeleteManyByBinaryDataId "string list" "error + unit"
  | MessageGetOneById string string "error + message option"
  | KnowledgeItemFindOne string "error + knowledgeItem option"
  | EmInsert knowledgeItem "error + unit"
  | EmFindOneOrFail string "error + knowledgeItem"
  | Uuidv4 string
  | LoggerDebug string
  | LoggerError string

text \<open>
  The code outside this module, taken as parameters. \<open>'w\<close> is the state of the outside
  world (the binary store, the database, the random source); a stateful collaborator
  maps it to an outcome and a new world. The pure ones are
  \<^verbatim>\<open>Buffer.from(s, BINARY_ENCODING)\<close>, \<^verbatim>\<open>buffer.toString(BINARY_ENCODING)\<close>,
  \<^verbatim>\<open>sanitizeFilename\<close> and the string conversion of a caught error inside a template
  literal.
\<close>

record 'w collaborators =
  bufferFrom :: "string \<Rightarrow> bytes"
  bufferToString :: "bytes \<Rightarrow> string"
  sanitizeFilename :: "string \<Rightarrow> string option"
  errorToString :: "error \<Rightarrow> string"
  uuidv4 :: "'w \<Rightarrow> string \<times> 'w"
  store :: "fileLocation \<Rightarrow> bytes \<Rightarrow> binaryData \<Rightarrow> 'w \<Rightarrow> (error + binaryData) \<times> 'w"
  getMetadata :: "string \<Rightarrow> 'w \<Rightarrow> (error + metadata) \<times> 'w"
  getAsStream :: "string \<Rightarrow> 'w \<Rightarrow> (error + readable) \<times> 'w"
  getAsBuffer :: "binaryData \<Rightarrow> 'w \<Rightarrow> (error + bytes) \<times> 'w"
  deleteManyByBinaryDataId :: "string list \<Rightarrow> 'w \<Rightarrow> (error + unit) \<times> 'w"
  messageGetOneById :: "string \<Rightarrow> string \<Rightarrow> 'w \<Rightarrow> (error + message option) \<times> 'w"
  knowledgeItemFindOne :: "string \<Rightarrow> 'w \<Rightarrow> (error + knowledgeItem option) \<times> 'w"
  emInsert :: "knowledgeItem \<Rightarrow> 'w \<Rightarrow> (error + unit) \<times> 'w"
  emFindOneOrFail :: "string \<Rightarrow> 'w \<Rightarrow> (error + knowledgeItem) \<times> 'w"

record 'w sys =
  world :: 'w
  calls :: "event list"

type_synonym ('w, 'a) async = "'w sys \<Rightarrow> (error + 'a) \<times> 'w sys"

text \<open>A call to a collaborator: run it on the world and append the entry to the log.\<close>

definition external :: "('w \<Rightarrow> 'r \<times> 'w) \<Rightarrow> ('r \<Rightarrow> event) \<Rightarrow> 'w sys \<Rightarrow> 'r \<times> 'w sys" where
  "external f entry st =
     (case f (world st) of
        (r, w) \<Rightarrow> (r, \<lparr>world = w, calls = calls st @ [entry r]\<rparr>))"

text \<open>The logger only records.\<close>

definition logged :: "event \<Rightarrow> ('w, unit) async" where
  "logged entry st = (Inr (), st\<lparr>calls := calls st @ [entry]\<rparr>)"

text \<open>\<^verbatim>\<open>await m\<close> followed by the rest of the body: a thrown error skips the rest.\<close>

definition andThen :: "('w, 'a) async \<Rightarrow> ('a \<Rightarrow> ('w, 'b) async) \<Rightarrow> ('w, 'b) async" where
  "andThen m f st =
     (case m st of
        (Inl e, st') \<Rightarrow> (Inl e, st')
      | (Inr x, st') \<Rightarrow> f x st')"

definition returns :: "'a \<Rightarrow> ('w, 'a) async" where
  "returns x st = (Inr x, st)"

definition throw :: "error \<Rightarrow> ('w, 'a) async" where
  "throw e st = (Inl e, st)"

section \<open>JavaScript built-ins the code uses\<close>

text \<open>A value of type \<^verbatim>\<open>string | undefined\<close> is truthy when defined and not empty.\<close>

fun truthy :: "string option \<Rightarrow> bool" where
  "truthy None = False"
| "truthy (Some s) = (s \<noteq> [])"

text \<open>A non-negative integer inside a template literal prints in decimal.\<close>

definition digit :: "nat \<Rightarrow> char" where
  "digit d = char_of (48 + d)"

fun decimal :: "nat \<Rightarrow> string" where
  "decimal n = (if n < 10 then [digit n] else decimal (n div 10) @ [digit (n mod 10)])"

declare decimal.simps [simp del]

text \<open>\<^verbatim>\<open>s.split('.')\<close>: the segments between the dots; never the empty array.\<close>

fun split_dot :: "string \<Rightarrow> string list" where
  "split_dot [] = [[]]"
| "split_dot (c # cs) =
     (if c = CHR ''.'' then [] # split_dot cs
      else (case split_dot cs of
              [] \<Rightarrow> [[c]]
            | seg # segs \<Rightarrow> (c # seg) # segs))"

text \<open>\<^verbatim>\<open>xs.pop()\<close> read for its value: the last element, \<^verbatim>\<open>undefined\<close> on the empty array.\<close>

definition pop :: "'a list \<Rightarrow> 'a option" where
  "pop xs = (if xs = [] then None else Some (last xs))"

text \<open>\<^verbatim>\<open>xs?.[i]\<close> with a numeric index: \<^verbatim>\<open>undefined\<close> unless \<open>i\<close> is an index of \<open>xs\<close>.\<close>

definition optIndex :: "'a list option \<Rightarrow> int \<Rightarrow> 'a option" where
  "optIndex xs i =
     (case xs of
        None \<Rightarrow> None
      | Some ys \<Rightarrow> (if 0 \<le> i \<and> i < int (length ys) then Some (ys ! nat i) else None))"

section \<open>ChatHubAttachmentService\<close>

definition maxTotalSizeBytes :: nat where
  "maxTotalSizeBytes = 200 * 1024 * 1024"

definition maxKnowledgeItemSizeBytes :: nat where
  "maxKnowledgeItemSizeBytes = 50 * 1024 * 1024"

text \<open>
  The object literal that \<^verbatim>\<open>processMessageAttachment\<close> and
  \<^verbatim>\<open>processKnowledgeItemAttachment\<close> both build (lines 269-278 and 299-308).
\<close>

definition newBinaryData :: "'w collaborators \<Rightarrow> chatAttachment \<Rightarrow> bytes \<Rightarrow> binaryData" where
  "newBinaryData env attachment buffer =
     (let sanitizedFileName = sanitizeFilename env (att_fileName attachment) in
      \<lparr>data = att_data attachment,
       mimeType = Some (att_mimeType attachment),
       fileName = sanitizedFileName,
       fileSize = Some (decimal (length buffer)),
       fileExtension =
         (case sanitizedFileName of
            None \<Rightarrow> None
          | Some name \<Rightarrow> pop (split_dot name)),
       id' = None\<rparr>)"

definition messageLocation :: "string \<Rightarrow> string \<Rightarrow> fileLocation" where
  "messageLocation sessionId messageId =
     \<lparr>sourceType = ''chat_message_attachment'',
      pathSegments = [''chat-hub'', ''sessions'', sessionId, ''messages'', messageId],
      sourceId = messageId\<rparr>"

definition knowledgeItemLocation :: "string \<Rightarrow> fileLocation" where
  "knowledgeItemLocation knowledgeItemId =
     \<lparr>sourceType = ''chat_knowledge_item_attachment'',
      pathSegments = [''chat-hub'', ''knowledge-items'', knowledgeItemId],
      sourceId = knowledgeItemId\<rparr>"

definition processMessageAttachment ::
  "'w collaborators \<Rightarrow> string \<Rightarrow> string \<Rightarrow> chatAttachment \<Rightarrow> bytes \<Rightarrow> ('w, binaryData) async" where
  "processMessageAttachment env sessionId messageId attachment buffer =
     (let binaryData = newBinaryData env attachment buffer;
          location = messageLocation sessionId messageId
      in external (store env location buffer binaryData) (Store location buffer binaryData))"

definition processKnowledgeItemAttachment ::
  "'w collaborators \<Rightarrow> string \<Rightarrow> chatAttachment \<Rightarrow> bytes \<Rightarrow> ('w, binaryData) async" where
  "processKnowledgeItemAttachment env knowledgeItemId attachment buffer =
     (let binaryData = newBinaryData env attachment buffer;
          location = knowledgeItemLocation knowledgeItemId
      in external (store env location buffer binaryData) (Store location buffer binaryData))"

text \<open>
  The \<^verbatim>\<open>for\<close> loop of \<^verbatim>\<open>storeMessageAttachments\<close>, over the attachments still to
  process, with the two local variables \<^verbatim>\<open>totalSize\<close> and \<^verbatim>\<open>storedAttachments\<close>.
  Buffer lengths and their sums stay far below \<open>2^53\<close>, where JavaScript numbers are exact,
  so \<open>nat\<close> is the arithmetic of the code.
\<close>

fun storeLoop ::
  "'w collaborators \<Rightarrow> string \<Rightarrow> string \<Rightarrow> chatAttachment list \<Rightarrow> nat \<Rightarrow> binaryData list
     \<Rightarrow> ('w, binaryData list) async" where
  "storeLoop env sessionId messageId [] totalSize storedAttachments st =
     (Inr storedAttachments, st)"
| "storeLoop env sessionId messageId (attachment # rest) totalSize storedAttachments st =
     (let buffer = bufferFrom env (att_data attachment);
          totalSize' = totalSize + length buffer
      in if totalSize' > maxTotalSizeBytes
         then (let maxSizeMB = maxTotalSizeBytes div (1024 * 1024)
               in (Inl (BadRequestError
                     (''Total size of attachments exceeds maximum size of ''
                        @ decimal maxSizeMB @ '' MB'')), st))
         else (case processMessageAttachment env sessionId messageId attachment buffer st of
                 (Inl e, st') \<Rightarrow> (Inl e, st')
               | (Inr stored, st') \<Rightarrow>
                   storeLoop env sessionId messageId rest totalSize'
                     (storedAttachments @ [stored]) st'))"

definition storeMessageAttachments ::
  "'w collaborators \<Rightarrow> string \<Rightarrow> string \<Rightarrow> chatAttachment list \<Rightarrow> ('w, binaryData list) async" where
  "storeMessageAttachments env sessionId messageId attachmentList =
     storeLoop env sessionId messageId attachmentList 0 []"

text \<open>
  The statements that end both \<^verbatim>\<open>getMessageAttachment\<close> (lines 87-100) and
  \<^verbatim>\<open>getKnowledgeItemAttachment\<close> (lines 210-223), once the record is found.
\<close>

definition attachmentFile ::
  "'w collaborators \<Rightarrow> binaryData \<Rightarrow> ('w, binaryData \<times> attachmentContent) async" where
  "attachmentFile env attachment =
     (if truthy (id' attachment)
      then andThen (external (getMetadata env (the (id' attachment)))
                      (GetMetadata (the (id' attachment))))
             (\<lambda>metadata.
                andThen (external (getAsStream env (the (id' attachment)))
                           (GetAsStream (the (id' attachment))))
                  (\<lambda>stream. returns (attachment, StreamResult stream (meta_fileSize metadata))))
      else if data attachment \<noteq> []
      then andThen (external (getAsBuffer env attachment) (GetAsBuffer attachment))
             (\<lambda>buffer. returns (attachment, BufferResult buffer (length buffer)))
      else throw (NotFoundError ''Attachment has no stored file''))"

text \<open>
  The third argument of \<^verbatim>\<open>getOneById\<close> is the constant empty list of relations; the
  log entry leaves it out.
\<close>

definition getMessageAttachment ::
  "'w collaborators \<Rightarrow> string \<Rightarrow> string \<Rightarrow> int
     \<Rightarrow> ('w, binaryData \<times> attachmentContent) async" where
  "getMessageAttachment env sessionId messageId attachmentIndex =
     andThen (external (messageGetOneById env messageId sessionId)
                (MessageGetOneById messageId sessionId))
       (\<lambda>found.
          case found of
            None \<Rightarrow> throw (NotFoundError ''Message not found'')
          | Some message \<Rightarrow>
              (case optIndex (attachments message) attachmentIndex of
                 None \<Rightarrow> throw (NotFoundError ''Attachment not found'')
               | Some attachment \<Rightarrow> attachmentFile env attachment))"

definition getKnowledgeItemAttachment ::
  "'w collaborators \<Rightarrow> string \<Rightarrow> ('w, binaryData \<times> attachmentContent) async" where
  "getKnowledgeItemAttachment env knowledgeItemId =
     andThen (external (knowledgeItemFindOne env knowledgeItemId)
                (KnowledgeItemFindOne knowledgeItemId))
       (\<lambda>found.
          case found of
            None \<Rightarrow> throw (NotFoundError ''Knowledge item attachment not found'')
          | Some knowledgeItem \<Rightarrow>
              (case ki_attachment knowledgeItem of
                 None \<Rightarrow> throw (NotFoundError ''Knowledge item attachment not found'')
               | Some attachment \<Rightarrow> attachmentFile env attachment))"

definition deleteAttachments :: "'w collaborators \<Rightarrow> binaryData list \<Rightarrow> ('w, unit) async" where
  "deleteAttachments env attachmentList =
     (let ids = concat (map (\<lambda>attachment.
                               if truthy (id' attachment) then [the (id' attachment)] else [])
                          attachmentList)
      in external (deleteManyByBinaryDataId env ids) (DeleteManyByBinaryDataId ids))"

definition getDataUrl :: "'w collaborators \<Rightarrow> binaryData \<Rightarrow> ('w, string) async" where
  "getDataUrl env binaryData =
     (if prefix ''data:'' (data binaryData) then returns (data binaryData)
      else andThen (external (getAsBuffer env binaryData) (GetAsBuffer binaryData))
             (\<lambda>buffer.
                let base64Data = bufferToString env buffer;
                    mimeType' = (if truthy (mimeType binaryData) then the (mimeType binaryData)
                                 else ''application/octet-stream'')
                in returns (''data:'' @ mimeType' @ '';base64,'' @ base64Data)))"

definition storeKnowledgeItemAttachment ::
  "'w collaborators \<Rightarrow> string \<Rightarrow> chatAttachment \<Rightarrow> ('w, binaryData) async" where
  "storeKnowledgeItemAttachment env knowledgeItemId attachment =
     (let buffer = bufferFrom env (att_data attachment)
      in if length buffer > maxKnowledgeItemSizeBytes
         then (let maxSizeMB = maxKnowledgeItemSizeBytes div (1024 * 1024)
               in throw (BadRequestError
                    (''Knowledge item attachment exceeds maximum size of ''
                       @ decimal maxSizeMB @ '' MB'')))
         else processKnowledgeItemAttachment env knowledgeItemId attachment buffer)"

section \<open>ChatHubKnowledgeItemRepository and ChatHubKnowledgeItemService\<close>

text \<open>
  \<^verbatim>\<open>ChatHubKnowledgeItemRepository.createKnowledgeItem\<close>, called without a transaction:
  insert, then read the row back.
\<close>

definition repositoryCreateKnowledgeItem ::
  "'w collaborators \<Rightarrow> knowledgeItem \<Rightarrow> ('w, knowledgeItem) async" where
  "repositoryCreateKnowledgeItem env knowledgeItem =
     andThen (external (emInsert env knowledgeItem) (EmInsert knowledgeItem))
       (\<lambda>_. external (emFindOneOrFail env (ki_id knowledgeItem))
               (EmFindOneOrFail (ki_id knowledgeItem)))"

text \<open>The \<^verbatim>\<open>catch\<close> block of \<^verbatim>\<open>createKnowledgeItem\<close>, for the caught \<open>error\<close>.\<close>

definition rollbackStoredAttachment ::
  "'w collaborators \<Rightarrow> string \<Rightarrow> binaryData option \<Rightarrow> error \<Rightarrow> ('w, knowledgeItem) async" where
  "rollbackStoredAttachment env itemId storedAttachment error st =
     (case storedAttachment of
        None \<Rightarrow> (Inl error, st)
      | Some stored \<Rightarrow>
          (case deleteAttachments env [stored] st of
             (Inr _, st') \<Rightarrow> (Inl error, st')
           | (Inl cleanupError, st') \<Rightarrow>
               (case logged (LoggerError
                       (''Failed to clean up attachment file for knowledge item '' @ itemId
                          @ '': '' @ errorToString env cleanupError)) st' of
                  (_, st'') \<Rightarrow> (Inl error, st''))))"

definition createKnowledgeItem ::
  "'w collaborators \<Rightarrow> user \<Rightarrow> chatAttachment option \<Rightarrow> ('w, knowledgeItem) async" where
  "createKnowledgeItem env user attachment st =
     (case external (\<lambda>w. uuidv4 env w) Uuidv4 st of
        (itemId, st1) \<Rightarrow>
          (case (case attachment of
                   None \<Rightarrow> returns None st1
                 | Some a \<Rightarrow>
                     andThen (storeKnowledgeItemAttachment env itemId a)
                       (\<lambda>stored. returns (Some stored)) st1) of
             (Inl e, st2) \<Rightarrow> (Inl e, st2)
           | (Inr storedAttachment, st2) \<Rightarrow>
               (case andThen (repositoryCreateKnowledgeItem env
                                \<lparr>ki_id = itemId, ki_type = ''attachment'',
                                 ownerId = user_id user, ki_attachment = storedAttachment\<rparr>)
                       (\<lambda>knowledgeItem.
                          andThen (logged (LoggerDebug
                                     (''Knowledge item created: '' @ itemId @ '' by user ''
                                        @ user_id user)))
                            (\<lambda>_. returns knowledgeItem)) st2 of
                  (Inr knowledgeItem, st3) \<Rightarrow> (Inr knowledgeItem, st3)
                | (Inl error, st3) \<Rightarrow>
                    rollbackStoredAttachment env itemId storedAttachment error st3)))"

section \<open>Vocabulary of the properties\<close>

text \<open>
  The log entry of the store call \<^verbatim>\<open>processMessageAttachment\<close> makes for one message
  attachment, with outcome \<open>r\<close>.
\<close>

definition storeEntry ::
  "'w collaborators \<Rightarrow> string \<Rightarrow> string \<Rightarrow> chatAttachment \<Rightarrow> error + binaryData \<Rightarrow> event" where
  "storeEntry env sessionId messageId a r =
     Store (messageLocation sessionId messageId) (bufferFrom env (att_data a))
       (newBinaryData env a (bufferFrom env (att_data a))) r"

text \<open>
  How many leading sizes keep the running total, started at \<open>totalSize\<close>, within
  \<open>maxTotalSizeBytes\<close>: the index of the attachment that crosses the cap, if one does.
\<close>

fun underCap :: "nat \<Rightarrow> nat list \<Rightarrow> nat" where
  "underCap totalSize [] = 0"
| "underCap totalSize (n # ns) =
     (if totalSize + n > maxTotalSizeBytes then 0 else Suc (underCap (totalSize + n) ns))"

text \<open>The decoded byte length of each attachment of a list.\<close>

definition attachmentSizes :: "'w collaborators \<Rightarrow> chatAttachment list \<Rightarrow> nat list" where
  "attachmentSizes env attachmentList =
     map (\<lambda>a. length (bufferFrom env (att_data a))) attachmentList"

text \<open>Log entries by kind.\<close>

fun isStore :: "event \<Rightarrow> bool" where
  "isStore (Store location buffer b r) = True"
| "isStore ev = False"

fun isGetAsBuffer :: "event \<Rightarrow> bool" where
  "isGetAsBuffer (GetAsBuffer b r) = True"
| "isGetAsBuffer ev = False"

fun isDelete :: "event \<Rightarrow> bool" where
  "isDelete (DeleteManyByBinaryDataId ids r) = True"
| "isDelete ev = False"

text \<open>The ids \<^verbatim>\<open>deleteAttachments\<close> collects from one record.\<close>

definition idsOf :: "binaryData \<Rightarrow> string list" where
  "idsOf b = (case id' b of None \<Rightarrow> [] | Some i \<Rightarrow> (if i = [] then [] else [i]))"

section \<open>A sample deployment\<close>

text \<open>
  Collaborators for running the code on concrete inputs. The world is the number of files
  written so far. The binary store is in external mode: \<open>store\<close> issues a fresh id and
  replaces the payload by the mode string, as the doc comment of
  \<^verbatim>\<open>storeMessageAttachments\<close> describes, and every stored file reads back as three
  zero bytes. The codec is base64 as it acts on payloads of the letter \<open>A\<close> (which
  decode to zero bytes) and on buffers of zero bytes. The database holds one message with
  an externally stored, an inline and an empty attachment record, and no knowledge item.
\<close>

definition externalRecord :: binaryData where
  "externalRecord =
     \<lparr>data = ''filesystem-v2'', mimeType = Some ''text/plain'', fileName = Some ''notes.txt'',
      fileSize = Some ''3'', fileExtension = Some ''txt'', id' = Some ''filesystem-v2:0''\<rparr>"

definition inlineRecord :: binaryData where
  "inlineRecord =
     \<lparr>data = ''AAAA'', mimeType = Some [], fileName = Some ''notes.txt'',
      fileSize = Some ''3'', fileExtension = Some ''txt'', id' = None\<rparr>"

definition emptyRecord :: binaryData where
  "emptyRecord =
     \<lparr>data = [], mimeType = None, fileName = None,
      fileSize = None, fileExtension = None, id' = None\<rparr>"

definition sampleServices :: "nat collaborators" where
  "sampleServices =
     \<lparr>bufferFrom = (\<lambda>s. replicate (length s * 3 div 4) 0),
      bufferToString =
        (\<lambda>b. replicate (4 * (length b div 3)) (CHR ''A'') @
              (if length b mod 3 = 1 then ''AA==''
               else if length b mod 3 = 2 then ''AAA='' else [])),
      sanitizeFilename = (\<lambda>s. Some (filter (\<lambda>c. c \<noteq> CHR ''/'') s)),
      errorToString =
        (\<lambda>e. case e of
               BadRequestError m \<Rightarrow> ''BadRequestError: '' @ m
             | NotFoundError m \<Rightarrow> ''NotFoundError: '' @ m
             | ExternalError m \<Rightarrow> ''Error: '' @ m),
      uuidv4 = (\<lambda>w. (''item-'' @ decimal w, w)),
      store =
        (\<lambda>location buffer b w.
           (Inr (b\<lparr>data := ''filesystem-v2'', id' := Some (''filesystem-v2:'' @ decimal w)\<rparr>),
            Suc w)),
      getMetadata = (\<lambda>i w. (Inr \<lparr>meta_fileSize = 3\<rparr>, w)),
      getAsStream = (\<lambda>i w. (Inr (Readable [0, 0, 0]), w)),
      getAsBuffer =
        (\<lambda>b w. (Inr (if truthy (id' b) then replicate 3 0
                       else replicate (length (data b) * 3 div 4) 0), w)),
      deleteManyByBinaryDataId = (\<lambda>ids w. (Inr (), w)),
      messageGetOneById =
        (\<lambda>messageId sessionId w.
           (Inr (Some \<lparr>attachments = Some [externalRecord, inlineRecord, emptyRecord]\<rparr>), w)),
      knowledgeItemFindOne = (\<lambda>i w. (Inr None, w)),
      emInsert = (\<lambda>k w. (Inr (), w)),
      emFindOneOrFail = (\<lambda>i w. (Inl (ExternalError ''EntityNotFoundError''), w))\<rparr>"

text \<open>
  Sample inputs: a small text upload, an upload whose name has no dot, an upload of \<open>n\<close>
  letters \<open>A\<close> (which decodes to \<open>3n/4\<close> bytes), a user, and the state before any call.
\<close>

definition textAttachment :: chatAttachment where
  "textAttachment =
     \<lparr>att_data = ''AAAA'', att_mimeType = ''text/plain'', att_fileName = ''notes.txt''\<rparr>"

definition readmeAttachment :: chatAttachment where
  "readmeAttachment =
     \<lparr>att_data = ''AAAA'', att_mimeType = ''text/plain'', att_fileName = ''README''\<rparr>"

definition payloadOf :: "nat \<Rightarrow> chatAttachment" where
  "payloadOf n =
     \<lparr>att_data = replicate n (CHR ''A''), att_mimeType = ''application/octet-stream'',
      att_fileName = ''blob.bin''\<rparr>"

definition sampleUser :: user where
  "sampleUser = \<lparr>user_id = ''user-1''\<rparr>"

definition initially :: "nat sys" where
  "initially = \<lparr>world = 0, calls = []\<rparr>"

text \<open>
  The sample deployment with a knowledge item on file, and with a database that rejects
  the insert while the binary store rejects the delete.
\<close>

definition servicesWithItem :: "nat collaborators" where
  "servicesWithItem =
     sampleServices\<lparr>knowledgeItemFindOne :=
       (\<lambda>i w. (Inr (Some \<lparr>ki_id = i, ki_type = ''attachment'', ownerId = ''user-1'',
                           ki_attachment = Some inlineRecord\<rparr>), w))\<rparr>"

definition failingServices :: "nat collaborators" where
  "failingServices =
     sampleServices\<lparr>emInsert := (\<lambda>k w. (Inl (ExternalError ''SQLITE_CONSTRAINT''), w)),
       deleteManyByBinaryDataId := (\<lambda>ids w. (Inl (ExternalError ''ENOENT''), w))\<rparr>"

section \<open>Basic facts\<close>

lemma decimal_50: "decimal 50 = ''50''"
  by code_simp

lemma decimal_200: "decimal 200 = ''200''"
  by code_simp

lemma decimal_small:
  "decimal 0 = ''0''" "decimal 1 = ''1''" "decimal 3 = ''3''"
  "decimal (Suc 0) = ''1''" "decimal (Suc (Suc (Suc 0))) = ''3''"
  by code_simp+

lemma split_dot_nonempty: "split_dot s \<noteq> []"
  by (induction s) (auto split: list.splits)

lemma split_dot_no_dot: "CHR ''.'' \<notin> set s \<Longrightarrow> split_dot s = [s]"
  by (induction s) auto

lemma isStore_storeEntry [simp]: "isStore (storeEntry env sessionId messageId a r)"
  by (simp add: storeEntry_def)

lemma isDelete_storeEntry [simp]: "\<not> isDelete (storeEntry env sessionId messageId a r)"
  by (simp add: storeEntry_def)

section \<open>Size limits\<close>

text \<open>
  C4. A knowledge-item attachment whose decoded length exceeds 50 MiB (52428800 bytes) is
  rejected with the BadRequest error that names the 50 MB limit, and the state that comes
  back is the state that went in: the world is untouched and the call log has no new
  entry, so the binary store was not called.
\<close>

theorem storeKnowledgeItemAttachment_over_limit:
  assumes "length (bufferFrom env (att_data a)) > 52428800"
  shows "storeKnowledgeItemAttachment env knowledgeItemId a st =
           (Inl (BadRequestError ''Knowledge item attachment exceeds maximum size of 50 MB''),
            st)"
  using assms
  by (simp add: storeKnowledgeItemAttachment_def maxKnowledgeItemSizeBytes_def throw_def
      decimal_50)

theorem storeKnowledgeItemAttachment_over_limit_witness:
  "length (bufferFrom sampleServices (att_data (payloadOf 69905068))) > 52428800 \<and>
   storeKnowledgeItemAttachment sampleServices ''item-0'' (payloadOf 69905068) initially =
     (Inl (BadRequestError ''Knowledge item attachment exceeds maximum size of 50 MB''),
      initially)"
proof -
  have over: "length (bufferFrom sampleServices (att_data (payloadOf 69905068))) > 52428800"
    by (simp add: sampleServices_def payloadOf_def)
  from storeKnowledgeItemAttachment_over_limit[OF over] over show ?thesis
    by simp
qed

section \<open>The batch of message attachments\<close>

lemma processMessageAttachment_calls:
  assumes "processMessageAttachment env sessionId messageId a (bufferFrom env (att_data a)) st
             = (r, st1)"
  shows "calls st1 = calls st @ [storeEntry env sessionId messageId a r]"
  using assms
  by (auto simp: processMessageAttachment_def external_def storeEntry_def Let_def
      split: prod.splits)

text \<open>
  When the loop returns, it has appended one record per remaining attachment, and the log
  has grown by one successful store entry per attachment, in the order of the input.
\<close>

lemma storeLoop_returns:
  assumes "storeLoop env sessionId messageId as totalSize acc st = (Inr rs, st')"
  shows "\<exists>new. rs = acc @ new \<and> length new = length as \<and>
           calls st' = calls st @
             map (\<lambda>(a, r). storeEntry env sessionId messageId a (Inr r)) (zip as new)"
  using assms
proof (induction as arbitrary: totalSize acc st)
  case Nil
  then show ?case by simp
next
  case (Cons a as)
  let ?buffer = "bufferFrom env (att_data a)"
  from Cons.prems obtain stored st1 where
    p: "processMessageAttachment env sessionId messageId a ?buffer st = (Inr stored, st1)" and
    l: "storeLoop env sessionId messageId as (totalSize + length ?buffer) (acc @ [stored]) st1
          = (Inr rs, st')"
    by (auto simp: Let_def split: if_splits prod.splits sum.splits)
  from processMessageAttachment_calls[OF p]
  have c1: "calls st1 = calls st @ [storeEntry env sessionId messageId a (Inr stored)]" .
  from Cons.IH[OF l] obtain new where
    n: "rs = (acc @ [stored]) @ new" "length new = length as"
       "calls st' = calls st1 @
          map (\<lambda>(a, r). storeEntry env sessionId messageId a (Inr r)) (zip as new)"
    by blast
  show ?case
    using n c1 by (intro exI[of _ "stored # new"]) simp
qed

lemma underCap_less:
  "totalSize \<le> maxTotalSizeBytes \<Longrightarrow> totalSize + sum_list ns > maxTotalSizeBytes
     \<Longrightarrow> underCap totalSize ns < length ns"
  by (induction ns arbitrary: totalSize) (auto simp: add.assoc)

text \<open>
  When the sizes still to come push the running total over the cap, the loop throws. The
  log grows by store entries only, for a prefix of the attachments that ends before the
  one that crosses the cap. If each of these calls succeeded, the prefix is all of them
  and the error is the size-limit error; otherwise the last entry is a failed store and
  its error is the one thrown.
\<close>

lemma storeLoop_over_cap:
  assumes "totalSize \<le> maxTotalSizeBytes"
    and "totalSize + sum_list (attachmentSizes env as) > maxTotalSizeBytes"
  shows "\<exists>e st' outs.
           storeLoop env sessionId messageId as totalSize acc st = (Inl e, st') \<and>
           length outs \<le> underCap totalSize (attachmentSizes env as) \<and>
           underCap totalSize (attachmentSizes env as) < length as \<and>
           calls st' = calls st @
             map (\<lambda>(a, r). storeEntry env sessionId messageId a r) (zip as outs) \<and>
           (if list_all (\<lambda>r. \<not> isl r) outs
            then length outs = underCap totalSize (attachmentSizes env as) \<and>
                 e = BadRequestError
                       ''Total size of attachments exceeds maximum size of 200 MB''
            else outs \<noteq> [] \<and> last outs = Inl e \<and> list_all (\<lambda>r. \<not> isl r) (butlast outs))"
  using assms
proof (induction as arbitrary: totalSize acc st)
  case Nil
  then show ?case by (simp add: attachmentSizes_def)
next
  case (Cons a as)
  let ?buffer = "bufferFrom env (att_data a)"
  let ?n = "length ?buffer"
  show ?case
  proof (cases "totalSize + ?n > maxTotalSizeBytes")
    case True
    then show ?thesis
      by (intro exI[of _ "BadRequestError
                       ''Total size of attachments exceeds maximum size of 200 MB''"]
            exI[of _ st] exI[of _ "[]"])
         (simp add: attachmentSizes_def Let_def maxTotalSizeBytes_def decimal_200)
  next
    case False
    obtain r st1 where
      p: "processMessageAttachment env sessionId messageId a ?buffer st = (r, st1)"
      by (cases "processMessageAttachment env sessionId messageId a ?buffer st")
    from processMessageAttachment_calls[OF p]
    have c1: "calls st1 = calls st @ [storeEntry env sessionId messageId a r]" .
    from False Cons.prems have
      le: "totalSize + ?n \<le> maxTotalSizeBytes" and
      gt: "(totalSize + ?n) + sum_list (attachmentSizes env as) > maxTotalSizeBytes"
      by (simp_all add: attachmentSizes_def)
    show ?thesis
    proof (cases r)
      case (Inl e)
      from underCap_less[OF le gt] have
        "underCap (totalSize + ?n) (attachmentSizes env as) < length as"
        by (simp add: attachmentSizes_def)
      with Inl False p c1 show ?thesis
        by (intro exI[of _ e] exI[of _ st1] exI[of _ "[Inl e]"])
           (simp add: attachmentSizes_def Let_def)
    next
      case (Inr stored)
      from Cons.IH[OF le gt, of "acc @ [stored]" st1] obtain e st' outs where
        ih: "storeLoop env sessionId messageId as (totalSize + ?n) (acc @ [stored]) st1
               = (Inl e, st')"
            "length outs \<le> underCap (totalSize + ?n) (attachmentSizes env as)"
            "underCap (totalSize + ?n) (attachmentSizes env as) < length as"
            "calls st' = calls st1 @
               map (\<lambda>(a, r). storeEntry env sessionId messageId a r) (zip as outs)"
            "if list_all (\<lambda>r. \<not> isl r) outs
             then length outs = underCap (totalSize + ?n) (attachmentSizes env as) \<and>
                  e = BadRequestError
                        ''Total size of attachments exceeds maximum size of 200 MB''
             else outs \<noteq> [] \<and> last outs = Inl e \<and> list_all (\<lambda>r. \<not> isl r) (butlast outs)"
        by blast
      have run: "storeLoop env sessionId messageId (a # as) totalSize acc st = (Inl e, st')"
        using False p Inr ih(1) by (simp add: Let_def)
      have cap: "underCap totalSize (attachmentSizes env (a # as))
                   = Suc (underCap (totalSize + ?n) (attachmentSizes env as))"
        using False by (simp add: attachmentSizes_def)
      show ?thesis
        using run cap ih(2-5) c1 Inr
        by (intro exI[of _ e] exI[of _ st'] exI[of _ "Inr stored # outs"])
           (auto split: if_splits)
    qed
  qed
qed


lemma underCap_crossing:
  "totalSize \<le> maxTotalSizeBytes \<Longrightarrow> totalSize + sum_list ns > maxTotalSizeBytes
     \<Longrightarrow> totalSize + sum_list (take (underCap totalSize ns) ns) \<le> maxTotalSizeBytes \<and>
         maxTotalSizeBytes < totalSize + sum_list (take (Suc (underCap totalSize ns)) ns)"
proof (induction ns arbitrary: totalSize)
  case Nil
  then show ?case by simp
next
  case (Cons n ns)
  show ?case
  proof (cases "totalSize + n > maxTotalSizeBytes")
    case True
    with Cons.prems show ?thesis by simp
  next
    case False
    with Cons.prems have "totalSize + n \<le> maxTotalSizeBytes"
      and "(totalSize + n) + sum_list ns > maxTotalSizeBytes"
      by simp_all
    from Cons.IH[OF this] False show ?thesis
      by (simp add: add.assoc)
  qed
qed

text \<open>
  C1. Let the decoded lengths of the attachments add up to more than 200 MiB (209715200
  bytes), and let \<open>k\<close> be the index of the attachment at which the running total first
  exceeds the cap. Then \<^verbatim>\<open>storeMessageAttachments\<close> throws and returns no records. The
  calls it made are store calls only, for attachments before index \<open>k\<close> and in input
  order: none for attachment \<open>k\<close> or a later one, and no delete call, so what was stored
  stays stored. When each of these store calls succeeded (the binary store did not itself
  fail), there are exactly \<open>k\<close> of them and the error is the BadRequest error naming
  200 MB; a store call that fails ends the loop with its own error instead.
\<close>

theorem storeMessageAttachments_over_cap:
  assumes "sum_list (attachmentSizes env attachmentList) > 209715200"
  shows "\<exists>e st' outs k.
           storeMessageAttachments env sessionId messageId attachmentList st = (Inl e, st') \<and>
           k = underCap 0 (attachmentSizes env attachmentList) \<and>
           k < length attachmentList \<and>
           sum_list (take k (attachmentSizes env attachmentList)) \<le> 209715200 \<and>
           209715200 < sum_list (take (Suc k) (attachmentSizes env attachmentList)) \<and>
           length outs \<le> k \<and>
           calls st' = calls st @
             map (\<lambda>(a, r). storeEntry env sessionId messageId a r) (zip attachmentList outs) \<and>
           list_all (\<lambda>ev. isStore ev \<and> \<not> isDelete ev) (drop (length (calls st)) (calls st')) \<and>
           (if list_all (\<lambda>r. \<not> isl r) outs
            then length outs = k \<and>
                 e = BadRequestError
                       ''Total size of attachments exceeds maximum size of 200 MB''
            else outs \<noteq> [] \<and> last outs = Inl e \<and> list_all (\<lambda>r. \<not> isl r) (butlast outs))"
proof -
  have cap: "maxTotalSizeBytes = 209715200"
    by (simp add: maxTotalSizeBytes_def)
  have le: "(0::nat) \<le> maxTotalSizeBytes" by simp
  have gt: "0 + sum_list (attachmentSizes env attachmentList) > maxTotalSizeBytes"
    using assms cap by simp
  from storeLoop_over_cap[OF le gt, of sessionId messageId "[]" st] obtain e st' outs where
    run: "storeLoop env sessionId messageId attachmentList 0 [] st = (Inl e, st')" and
    len: "length outs \<le> underCap 0 (attachmentSizes env attachmentList)" and
    idx: "underCap 0 (attachmentSizes env attachmentList) < length attachmentList" and
    log: "calls st' = calls st @
            map (\<lambda>(a, r). storeEntry env sessionId messageId a r) (zip attachmentList outs)" and
    err: "if list_all (\<lambda>r. \<not> isl r) outs
          then length outs = underCap 0 (attachmentSizes env attachmentList) \<and>
               e = BadRequestError
                     ''Total size of attachments exceeds maximum size of 200 MB''
          else outs \<noteq> [] \<and> last outs = Inl e \<and> list_all (\<lambda>r. \<not> isl r) (butlast outs)"
    by blast
  from underCap_crossing[OF le gt] cap have
    cross: "sum_list (take (underCap 0 (attachmentSizes env attachmentList))
               (attachmentSizes env attachmentList)) \<le> 209715200"
           "209715200 < sum_list (take (Suc (underCap 0 (attachmentSizes env attachmentList)))
               (attachmentSizes env attachmentList))"
    by simp_all
  have kinds: "list_all (\<lambda>ev. isStore ev \<and> \<not> isDelete ev) (drop (length (calls st)) (calls st'))"
    by (simp add: log list_all_iff split_beta)
  show ?thesis
    using run len idx log err cross kinds
    by (intro exI[of _ e] exI[of _ st'] exI[of _ outs]
          exI[of _ "underCap 0 (attachmentSizes env attachmentList)"])
       (simp add: storeMessageAttachments_def)
qed

theorem storeMessageAttachments_over_cap_witness:
  "sum_list (attachmentSizes sampleServices [payloadOf 139810134, payloadOf 209715200])
     > 209715200 \<and>
   fst (storeMessageAttachments sampleServices ''s1'' ''m1''
          [payloadOf 139810134, payloadOf 209715200] initially)
     = Inl (BadRequestError ''Total size of attachments exceeds maximum size of 200 MB'') \<and>
   underCap 0 (attachmentSizes sampleServices [payloadOf 139810134, payloadOf 209715200]) = 1 \<and>
   map isStore (calls (snd (storeMessageAttachments sampleServices ''s1'' ''m1''
          [payloadOf 139810134, payloadOf 209715200] initially))) = [True]"
proof -
  have over: "sum_list (attachmentSizes sampleServices [payloadOf 139810134, payloadOf 209715200])
     > 209715200"
    by (simp add: attachmentSizes_def sampleServices_def payloadOf_def)
  from storeMessageAttachments_over_cap[OF over, of "''s1''" "''m1''" initially] over
  show ?thesis
    by (simp add: storeMessageAttachments_def Let_def processMessageAttachment_def external_def
      sampleServices_def payloadOf_def initially_def newBinaryData_def attachmentSizes_def
      maxTotalSizeBytes_def pop_def messageLocation_def decimal_200)
qed

text \<open>
  C2. Whenever \<^verbatim>\<open>storeMessageAttachments\<close> returns, it returns exactly one record per
  input attachment, and the log shows that the \<open>i\<close>-th record is what the store call for
  the \<open>i\<close>-th attachment answered, the calls being made in input order. The only other
  outcome is a thrown error, which carries no records. The empty list yields the empty
  list without any call.
\<close>

theorem storeMessageAttachments_order:
  "(\<forall>rs st'. storeMessageAttachments env sessionId messageId attachmentList st = (Inr rs, st') \<longrightarrow>
      length rs = length attachmentList \<and>
      calls st' = calls st @
        map (\<lambda>(a, r). storeEntry env sessionId messageId a (Inr r)) (zip attachmentList rs)) \<and>
   storeMessageAttachments env sessionId messageId [] st = (Inr [], st)"
  using storeLoop_returns[of env sessionId messageId attachmentList 0 "[]" st]
  by (auto simp: storeMessageAttachments_def)

theorem storeMessageAttachments_order_witness:
  "storeMessageAttachments sampleServices ''s1'' ''m1'' [textAttachment, readmeAttachment] initially
     = (Inr [newBinaryData sampleServices textAttachment [0, 0, 0]
               \<lparr>data := ''filesystem-v2'', id' := Some ''filesystem-v2:0''\<rparr>,
             newBinaryData sampleServices readmeAttachment [0, 0, 0]
               \<lparr>data := ''filesystem-v2'', id' := Some ''filesystem-v2:1''\<rparr>],
        \<lparr>world = 2,
         calls =
           [storeEntry sampleServices ''s1'' ''m1'' textAttachment
              (Inr (newBinaryData sampleServices textAttachment [0, 0, 0]
                      \<lparr>data := ''filesystem-v2'', id' := Some ''filesystem-v2:0''\<rparr>)),
            storeEntry sampleServices ''s1'' ''m1'' readmeAttachment
              (Inr (newBinaryData sampleServices readmeAttachment [0, 0, 0]
                      \<lparr>data := ''filesystem-v2'', id' := Some ''filesystem-v2:1''\<rparr>))]\<rparr>) \<and>
   length [newBinaryData sampleServices textAttachment [0, 0, 0]
               \<lparr>data := ''filesystem-v2'', id' := Some ''filesystem-v2:0''\<rparr>,
             newBinaryData sampleServices readmeAttachment [0, 0, 0]
               \<lparr>data := ''filesystem-v2'', id' := Some ''filesystem-v2:1''\<rparr>]
     = length [textAttachment, readmeAttachment]"
proof -
  have run: "storeMessageAttachments sampleServices ''s1'' ''m1'' [textAttachment, readmeAttachment] initially
     = (Inr [newBinaryData sampleServices textAttachment [0, 0, 0]
               \<lparr>data := ''filesystem-v2'', id' := Some ''filesystem-v2:0''\<rparr>,
             newBinaryData sampleServices readmeAttachment [0, 0, 0]
               \<lparr>data := ''filesystem-v2'', id' := Some ''filesystem-v2:1''\<rparr>],
        \<lparr>world = 2,
         calls =
           [storeEntry sampleServices ''s1'' ''m1'' textAttachment
              (Inr (newBinaryData sampleServices textAttachment [0, 0, 0]
                      \<lparr>data := ''filesystem-v2'', id' := Some ''filesystem-v2:0''\<rparr>)),
            storeEntry sampleServices ''s1'' ''m1'' readmeAttachment
              (Inr (newBinaryData sampleServices readmeAttachment [0, 0, 0]
                      \<lparr>data := ''filesystem-v2'', id' := Some ''filesystem-v2:1''\<rparr>))]\<rparr>)"
    by (simp add: storeMessageAttachments_def Let_def processMessageAttachment_def external_def
      sampleServices_def textAttachment_def readmeAttachment_def initially_def newBinaryData_def
      maxTotalSizeBytes_def pop_def messageLocation_def storeEntry_def decimal_small
      numeral_2_eq_2)
  from storeMessageAttachments_order[of sampleServices "''s1''" "''m1''"
         "[textAttachment, readmeAttachment]" initially] run
  show ?thesis by simp
qed

section \<open>Retrieval\<close>

lemma getMessageAttachment_found:
  assumes "messageGetOneById env messageId sessionId (world st) = (Inr (Some m), w)"
    and "optIndex (attachments m) i = Some a"
  shows "getMessageAttachment env sessionId messageId i st =
           attachmentFile env a
             \<lparr>world = w, calls = calls st @ [MessageGetOneById messageId sessionId (Inr (Some m))]\<rparr>"
  using assms by (simp add: getMessageAttachment_def andThen_def external_def)

lemma getKnowledgeItemAttachment_found:
  assumes "knowledgeItemFindOne env knowledgeItemId (world st) = (Inr (Some k), w)"
    and "ki_attachment k = Some a"
  shows "getKnowledgeItemAttachment env knowledgeItemId st =
           attachmentFile env a
             \<lparr>world = w, calls = calls st @ [KnowledgeItemFindOne knowledgeItemId (Inr (Some k))]\<rparr>"
  using assms by (simp add: getKnowledgeItemAttachment_def andThen_def external_def)

lemma attachmentFile_stream:
  assumes "truthy (id' a)"
    and "getMetadata env (the (id' a)) (world st) = (Inr md, w1)"
    and "getAsStream env (the (id' a)) w1 = (Inr s, w2)"
  shows "attachmentFile env a st =
           (Inr (a, StreamResult s (meta_fileSize md)),
            \<lparr>world = w2,
             calls = calls st @ [GetMetadata (the (id' a)) (Inr md), GetAsStream (the (id' a)) (Inr s)]\<rparr>)"
  using assms by (simp add: attachmentFile_def andThen_def external_def returns_def)

lemma attachmentFile_stream_only:
  assumes "truthy (id' a)" and "fst (attachmentFile env a st) = Inr r"
  shows "\<exists>s n. r = (a, StreamResult s n)"
  using assms
  by (auto simp: attachmentFile_def andThen_def external_def returns_def
      split: prod.splits sum.splits)

lemma attachmentFile_buffer:
  assumes "\<not> truthy (id' a)" and "data a \<noteq> []"
    and "getAsBuffer env a (world st) = (Inr buffer, w)"
  shows "attachmentFile env a st =
           (Inr (a, BufferResult buffer (length buffer)),
            \<lparr>world = w, calls = calls st @ [GetAsBuffer a (Inr buffer)]\<rparr>)"
  using assms by (simp add: attachmentFile_def andThen_def external_def returns_def)

lemma attachmentFile_buffer_only:
  assumes "\<not> truthy (id' a)" and "fst (attachmentFile env a st) = Inr r"
  shows "\<exists>buffer. r = (a, BufferResult buffer (length buffer))"
  using assms
  by (auto simp: attachmentFile_def andThen_def external_def returns_def throw_def
      split: prod.splits sum.splits if_splits)

lemma attachmentFile_nothing:
  assumes "\<not> truthy (id' a)" and "data a = []"
  shows "attachmentFile env a st = (Inl (NotFoundError ''Attachment has no stored file''), st)"
  using assms by (simp add: attachmentFile_def throw_def)

lemma attachmentFile_id_calls:
  assumes "truthy (id' a)"
  shows "\<exists>new. calls (snd (attachmentFile env a st)) = calls st @ new \<and>
           (\<forall>ev \<in> set new. \<not> isGetAsBuffer ev)"
  using assms
  by (auto simp: attachmentFile_def andThen_def external_def returns_def
      split: prod.splits sum.splits)

lemma attachmentFile_id_ignores_data:
  assumes "truthy (id' a)"
  shows "map_sum (\<lambda>e. e) snd (fst (attachmentFile env (a\<lparr>data := d\<rparr>) st))
           = map_sum (\<lambda>e. e) snd (fst (attachmentFile env a st)) \<and>
         snd (attachmentFile env (a\<lparr>data := d\<rparr>) st) = snd (attachmentFile env a st)"
  using assms
  by (auto simp: attachmentFile_def andThen_def external_def returns_def
      split: prod.splits sum.splits)

text \<open>
  C3. \<open>attachmentFile\<close> is what both \<^verbatim>\<open>getMessageAttachment\<close> and
  \<^verbatim>\<open>getKnowledgeItemAttachment\<close> do with the record they found (last two conjuncts).
  A field is set when it is truthy: defined and not the empty string.
  With the id set, the result is the record with a stream-mode content carrying the stream
  and the file size of the metadata, as soon as the binary store answers both calls, and
  nothing but a stream-mode content is ever returned. With the id unset and a payload in
  \<open>data\<close>, the result is a buffer-mode content carrying the buffer and its length, and
  nothing but a buffer-mode content is ever returned. With neither, the NotFound error is
  thrown and no call is made.
\<close>

theorem retrieval_modes:
  "(truthy (id' a) \<longrightarrow>
      (\<forall>md s w1 w2. getMetadata env (the (id' a)) (world st) = (Inr md, w1) \<and>
           getAsStream env (the (id' a)) w1 = (Inr s, w2) \<longrightarrow>
         fst (attachmentFile env a st) = Inr (a, StreamResult s (meta_fileSize md))) \<and>
      (\<forall>r. fst (attachmentFile env a st) = Inr r \<longrightarrow> (\<exists>s n. r = (a, StreamResult s n)))) \<and>
   (\<not> truthy (id' a) \<and> data a \<noteq> [] \<longrightarrow>
      (\<forall>buffer w. getAsBuffer env a (world st) = (Inr buffer, w) \<longrightarrow>
         fst (attachmentFile env a st) = Inr (a, BufferResult buffer (length buffer))) \<and>
      (\<forall>r. fst (attachmentFile env a st) = Inr r \<longrightarrow>
         (\<exists>buffer. r = (a, BufferResult buffer (length buffer))))) \<and>
   (\<not> truthy (id' a) \<and> data a = [] \<longrightarrow>
      attachmentFile env a st = (Inl (NotFoundError ''Attachment has no stored file''), st)) \<and>
   (\<forall>m w. messageGetOneById env messageId sessionId (world st0) = (Inr (Some m), w) \<and>
        optIndex (attachments m) i = Some a \<longrightarrow>
      getMessageAttachment env sessionId messageId i st0 =
        attachmentFile env a
          \<lparr>world = w,
           calls = calls st0 @ [MessageGetOneById messageId sessionId (Inr (Some m))]\<rparr>) \<and>
   (\<forall>k w. knowledgeItemFindOne env knowledgeItemId (world st0) = (Inr (Some k), w) \<and>
        ki_attachment k = Some a \<longrightarrow>
      getKnowledgeItemAttachment env knowledgeItemId st0 =
        attachmentFile env a
          \<lparr>world = w,
           calls = calls st0 @ [KnowledgeItemFindOne knowledgeItemId (Inr (Some k))]\<rparr>)"
proof (intro conjI impI allI)
  fix md s w1 w2
  assume "truthy (id' a)"
    and "getMetadata env (the (id' a)) (world st) = (Inr md, w1) \<and>
         getAsStream env (the (id' a)) w1 = (Inr s, w2)"
  then show "fst (attachmentFile env a st) = Inr (a, StreamResult s (meta_fileSize md))"
    by (simp add: attachmentFile_stream)
next
  fix r assume "truthy (id' a)" and "fst (attachmentFile env a st) = Inr r"
  then show "\<exists>s n. r = (a, StreamResult s n)" by (rule attachmentFile_stream_only)
next
  fix buffer w
  assume "\<not> truthy (id' a) \<and> data a \<noteq> []"
    and "getAsBuffer env a (world st) = (Inr buffer, w)"
  then show "fst (attachmentFile env a st) = Inr (a, BufferResult buffer (length buffer))"
    by (simp add: attachmentFile_buffer)
next
  fix r assume "\<not> truthy (id' a) \<and> data a \<noteq> []" and "fst (attachmentFile env a st) = Inr r"
  then show "\<exists>buffer. r = (a, BufferResult buffer (length buffer))"
    using attachmentFile_buffer_only by blast
next
  assume "\<not> truthy (id' a) \<and> data a = []"
  then show "attachmentFile env a st = (Inl (NotFoundError ''Attachment has no stored file''), st)"
    by (simp add: attachmentFile_nothing)
next
  fix m w
  assume "messageGetOneById env messageId sessionId (world st0) = (Inr (Some m), w) \<and>
        optIndex (attachments m) i = Some a"
  then show "getMessageAttachment env sessionId messageId i st0 =
        attachmentFile env a
          \<lparr>world = w,
           calls = calls st0 @ [MessageGetOneById messageId sessionId (Inr (Some m))]\<rparr>"
    by (simp add: getMessageAttachment_found)
next
  fix k w
  assume "knowledgeItemFindOne env knowledgeItemId (world st0) = (Inr (Some k), w) \<and>
        ki_attachment k = Some a"
  then show "getKnowledgeItemAttachment env knowledgeItemId st0 =
        attachmentFile env a
          \<lparr>world = w,
           calls = calls st0 @ [KnowledgeItemFindOne knowledgeItemId (Inr (Some k))]\<rparr>"
    by (simp add: getKnowledgeItemAttachment_found)
qed

theorem retrieval_modes_witness:
  "truthy (id' externalRecord) \<and>
   fst (getMessageAttachment sampleServices ''s1'' ''m1'' 0 initially) =
     Inr (externalRecord, StreamResult (Readable [0, 0, 0]) 3) \<and>
   \<not> truthy (id' inlineRecord) \<and> data inlineRecord \<noteq> [] \<and>
   fst (getMessageAttachment sampleServices ''s1'' ''m1'' 1 initially) =
     Inr (inlineRecord, BufferResult (replicate 3 0) 3) \<and>
   fst (getKnowledgeItemAttachment servicesWithItem ''item-0'' initially) =
     Inr (inlineRecord, BufferResult (replicate 3 0) 3) \<and>
   \<not> truthy (id' emptyRecord) \<and> data emptyRecord = [] \<and>
   fst (getMessageAttachment sampleServices ''s1'' ''m1'' 2 initially) =
     Inl (NotFoundError ''Attachment has no stored file'')"
proof -
  let ?m = "\<lparr>attachments = Some [externalRecord, inlineRecord, emptyRecord]\<rparr>"
  let ?k = "\<lparr>ki_id = ''item-0'', ki_type = ''attachment'', ownerId = ''user-1'',
             ki_attachment = Some inlineRecord\<rparr>"
  let ?st = "\<lparr>world = 0, calls = calls initially @ [MessageGetOneById ''m1'' ''s1'' (Inr (Some ?m))]\<rparr>"
  let ?sk = "\<lparr>world = 0, calls = calls initially @ [KnowledgeItemFindOne ''item-0'' (Inr (Some ?k))]\<rparr>"
  note stream = retrieval_modes[THEN conjunct1, rule_format, THEN conjunct1, rule_format]
  note buffer = retrieval_modes[THEN conjunct2, THEN conjunct1, rule_format, THEN conjunct1,
      rule_format]
  note neither = retrieval_modes[THEN conjunct2, THEN conjunct2, THEN conjunct1, rule_format]
  note viaMessage = retrieval_modes[THEN conjunct2, THEN conjunct2, THEN conjunct2,
      THEN conjunct1, rule_format]
  note viaItem = retrieval_modes[THEN conjunct2, THEN conjunct2, THEN conjunct2,
      THEN conjunct2, rule_format]
  have found: "messageGetOneById sampleServices ''m1'' ''s1'' (world initially) = (Inr (Some ?m), 0)"
    by (simp add: sampleServices_def initially_def)
  have i0: "optIndex (attachments ?m) 0 = Some externalRecord"
    and i1: "optIndex (attachments ?m) 1 = Some inlineRecord"
    and i2: "optIndex (attachments ?m) 2 = Some emptyRecord"
    by (simp_all add: optIndex_def)
  have ext: "truthy (id' externalRecord)"
    and inl: "\<not> truthy (id' inlineRecord) \<and> data inlineRecord \<noteq> []"
    and emp: "\<not> truthy (id' emptyRecord) \<and> data emptyRecord = []"
    by (simp_all add: externalRecord_def inlineRecord_def emptyRecord_def)
  have md: "getMetadata sampleServices (the (id' externalRecord)) (world ?st)
              = (Inr \<lparr>meta_fileSize = 3\<rparr>, 0) \<and>
            getAsStream sampleServices (the (id' externalRecord)) 0 = (Inr (Readable [0, 0, 0]), 0)"
    and bf: "getAsBuffer sampleServices inlineRecord (world ?st) = (Inr (replicate 3 0), 0)"
    by (simp_all add: sampleServices_def inlineRecord_def)
  have kfound: "knowledgeItemFindOne servicesWithItem ''item-0'' (world initially)
      = (Inr (Some ?k), 0) \<and> ki_attachment ?k = Some inlineRecord"
    by (simp add: servicesWithItem_def initially_def)
  have kbf: "getAsBuffer servicesWithItem inlineRecord (world ?sk) = (Inr (replicate 3 0), 0)"
    by (simp add: servicesWithItem_def sampleServices_def inlineRecord_def)
  have a0: "fst (getMessageAttachment sampleServices ''s1'' ''m1'' 0 initially)
              = Inr (externalRecord, StreamResult (Readable [0, 0, 0]) 3)"
    by (simp only: viaMessage[OF conjI[OF found i0]] stream[OF ext md] metadata.simps)
  have a1: "fst (getMessageAttachment sampleServices ''s1'' ''m1'' 1 initially)
              = Inr (inlineRecord, BufferResult (replicate 3 0) 3)"
    by (simp only: viaMessage[OF conjI[OF found i1]] buffer[OF inl bf] length_replicate)
  have a2: "fst (getMessageAttachment sampleServices ''s1'' ''m1'' 2 initially)
              = Inl (NotFoundError ''Attachment has no stored file'')"
    by (simp only: viaMessage[OF conjI[OF found i2]] neither[OF emp] fst_conv)
  have ak: "fst (getKnowledgeItemAttachment servicesWithItem ''item-0'' initially)
              = Inr (inlineRecord, BufferResult (replicate 3 0) 3)"
    by (simp only: viaItem[OF kfound] buffer[OF inl kbf] length_replicate)
  show ?thesis
    using ext inl emp a0 a1 a2 ak by simp
qed

text \<open>
  C9. When both the id and the inline data of the found record are set (truthy), retrieval
  goes to the external store only: the calls it adds to the log never include
  \<^verbatim>\<open>getAsBuffer\<close>, whatever it returns is a stream-mode content, it is the stream and
  the metadata size of the store as soon as the store answers, and neither the content (or
  error) nor the resulting state changes when the inline data is replaced by any other
  string. The last two conjuncts tie \<open>attachmentFile\<close> to the two retrieval methods.
\<close>

theorem retrieval_prefers_id:
  "(truthy (id' a) \<and> data a \<noteq> [] \<longrightarrow>
      (\<exists>new. calls (snd (attachmentFile env a st)) = calls st @ new \<and>
         list_all (\<lambda>ev. \<not> isGetAsBuffer ev) new) \<and>
      (\<forall>r. fst (attachmentFile env a st) = Inr r \<longrightarrow> (\<exists>s n. r = (a, StreamResult s n))) \<and>
      (\<forall>md s w1 w2. getMetadata env (the (id' a)) (world st) = (Inr md, w1) \<and>
           getAsStream env (the (id' a)) w1 = (Inr s, w2) \<longrightarrow>
         attachmentFile env a st =
           (Inr (a, StreamResult s (meta_fileSize md)),
            \<lparr>world = w2,
             calls = calls st @ [GetMetadata (the (id' a)) (Inr md),
                                 GetAsStream (the (id' a)) (Inr s)]\<rparr>)) \<and>
      (\<forall>d. map_sum (\<lambda>e. e) snd (fst (attachmentFile env (a\<lparr>data := d\<rparr>) st))
              = map_sum (\<lambda>e. e) snd (fst (attachmentFile env a st)) \<and>
           snd (attachmentFile env (a\<lparr>data := d\<rparr>) st) = snd (attachmentFile env a st))) \<and>
   (\<forall>m w. messageGetOneById env messageId sessionId (world st0) = (Inr (Some m), w) \<and>
        optIndex (attachments m) i = Some a \<longrightarrow>
      getMessageAttachment env sessionId messageId i st0 =
        attachmentFile env a
          \<lparr>world = w,
           calls = calls st0 @ [MessageGetOneById messageId sessionId (Inr (Some m))]\<rparr>) \<and>
   (\<forall>k w. knowledgeItemFindOne env knowledgeItemId (world st0) = (Inr (Some k), w) \<and>
        ki_attachment k = Some a \<longrightarrow>
      getKnowledgeItemAttachment env knowledgeItemId st0 =
        attachmentFile env a
          \<lparr>world = w,
           calls = calls st0 @ [KnowledgeItemFindOne knowledgeItemId (Inr (Some k))]\<rparr>)"
proof (intro conjI impI allI)
  assume "truthy (id' a) \<and> data a \<noteq> []"
  then show "\<exists>new. calls (snd (attachmentFile env a st)) = calls st @ new \<and>
         list_all (\<lambda>ev. \<not> isGetAsBuffer ev) new"
    using attachmentFile_id_calls[of a env st] by (simp add: list_all_iff)
next
  fix r assume "truthy (id' a) \<and> data a \<noteq> []" and "fst (attachmentFile env a st) = Inr r"
  then show "\<exists>s n. r = (a, StreamResult s n)"
    using attachmentFile_stream_only by blast
next
  fix md s w1 w2
  assume "truthy (id' a) \<and> data a \<noteq> []"
    and "getMetadata env (the (id' a)) (world st) = (Inr md, w1) \<and>
         getAsStream env (the (id' a)) w1 = (Inr s, w2)"
  then show "attachmentFile env a st =
           (Inr (a, StreamResult s (meta_fileSize md)),
            \<lparr>world = w2,
             calls = calls st @ [GetMetadata (the (id' a)) (Inr md),
                                 GetAsStream (the (id' a)) (Inr s)]\<rparr>)"
    by (simp add: attachmentFile_stream)
next
  fix d assume "truthy (id' a) \<and> data a \<noteq> []"
  then show "map_sum (\<lambda>e. e) snd (fst (attachmentFile env (a\<lparr>data := d\<rparr>) st))
              = map_sum (\<lambda>e. e) snd (fst (attachmentFile env a st))"
    by (simp add: attachmentFile_id_ignores_data)
next
  fix d assume "truthy (id' a) \<and> data a \<noteq> []"
  then show "snd (attachmentFile env (a\<lparr>data := d\<rparr>) st) = snd (attachmentFile env a st)"
    by (simp add: attachmentFile_id_ignores_data)
next
  fix m w
  assume "messageGetOneById env messageId sessionId (world st0) = (Inr (Some m), w) \<and>
        optIndex (attachments m) i = Some a"
  then show "getMessageAttachment env sessionId messageId i st0 =
        attachmentFile env a
          \<lparr>world = w,
           calls = calls st0 @ [MessageGetOneById messageId sessionId (Inr (Some m))]\<rparr>"
    by (simp add: getMessageAttachment_found)
next
  fix k w
  assume "knowledgeItemFindOne env knowledgeItemId (world st0) = (Inr (Some k), w) \<and>
        ki_attachment k = Some a"
  then show "getKnowledgeItemAttachment env knowledgeItemId st0 =
        attachmentFile env a
          \<lparr>world = w,
           calls = calls st0 @ [KnowledgeItemFindOne knowledgeItemId (Inr (Some k))]\<rparr>"
    by (simp add: getKnowledgeItemAttachment_found)
qed

theorem retrieval_prefers_id_witness:
  "truthy (id' externalRecord) \<and> data externalRecord \<noteq> [] \<and>
   getMessageAttachment sampleServices ''s1'' ''m1'' 0 initially =
     (Inr (externalRecord, StreamResult (Readable [0, 0, 0]) 3),
      \<lparr>world = 0,
       calls = [MessageGetOneById ''m1'' ''s1''
                  (Inr (Some \<lparr>attachments = Some [externalRecord, inlineRecord, emptyRecord]\<rparr>)),
                GetMetadata ''filesystem-v2:0'' (Inr \<lparr>meta_fileSize = 3\<rparr>),
                GetAsStream ''filesystem-v2:0'' (Inr (Readable [0, 0, 0]))]\<rparr>)"
proof -
  let ?m = "\<lparr>attachments = Some [externalRecord, inlineRecord, emptyRecord]\<rparr>"
  let ?st = "\<lparr>world = 0 :: nat, calls = calls initially @ [MessageGetOneById ''m1'' ''s1'' (Inr (Some ?m))]\<rparr>"
  note stream = retrieval_prefers_id[THEN conjunct1, rule_format, THEN conjunct2,
      THEN conjunct2, THEN conjunct1, rule_format]
  note viaMessage = retrieval_prefers_id[THEN conjunct2, THEN conjunct1, rule_format]
  have found: "messageGetOneById sampleServices ''m1'' ''s1'' (world initially) = (Inr (Some ?m), 0)"
    by (simp add: sampleServices_def initially_def)
  have i0: "optIndex (attachments ?m) 0 = Some externalRecord"
    by (simp add: optIndex_def)
  have both: "truthy (id' externalRecord) \<and> data externalRecord \<noteq> []"
    by (simp add: externalRecord_def)
  have md: "getMetadata sampleServices (the (id' externalRecord)) (world ?st)
              = (Inr \<lparr>meta_fileSize = 3\<rparr>, 0) \<and>
            getAsStream sampleServices (the (id' externalRecord)) 0 = (Inr (Readable [0, 0, 0]), 0)"
    by (simp add: sampleServices_def)
  have ident: "the (id' externalRecord) = ''filesystem-v2:0''"
    by (simp add: externalRecord_def)
  have log: "calls initially = []"
    by (simp add: initially_def)
  have "getMessageAttachment sampleServices ''s1'' ''m1'' 0 initially =
     (Inr (externalRecord, StreamResult (Readable [0, 0, 0]) (meta_fileSize \<lparr>meta_fileSize = 3\<rparr>)),
      \<lparr>world = 0,
       calls = calls ?st @
               [GetMetadata (the (id' externalRecord)) (Inr \<lparr>meta_fileSize = 3\<rparr>),
                GetAsStream (the (id' externalRecord)) (Inr (Readable [0, 0, 0]))]\<rparr>)"
    by (simp only: viaMessage[OF conjI[OF found i0]] stream[OF both md])
  with both show ?thesis by (simp add: ident log)
qed

section \<open>Data URLs\<close>

lemma replicate_4_A: "replicate 4 (CHR ''A'') = ''AAAA''"
  by code_simp

text \<open>
  C6. \<^verbatim>\<open>getDataUrl\<close> on a record whose data begins with \<open>data:\<close> returns that string
  and leaves the state as it was: no call is made. Every string \<^verbatim>\<open>getDataUrl\<close> returns
  begins with \<open>data:\<close>, and on a record carrying that string as its data the function
  returns it unchanged, again without any call.
\<close>

theorem getDataUrl_idempotent:
  "(prefix ''data:'' (data b) \<longrightarrow> getDataUrl env b st = (Inr (data b), st)) \<and>
   (\<forall>url st'. getDataUrl env b st = (Inr url, st') \<longrightarrow>
      prefix ''data:'' url \<and> getDataUrl env (b\<lparr>data := url\<rparr>) st2 = (Inr url, st2))"
  by (auto simp: getDataUrl_def returns_def andThen_def external_def Let_def
      split: prod.splits sum.splits if_splits)

theorem getDataUrl_idempotent_witness:
  "prefix ''data:'' (data (inlineRecord\<lparr>data := ''data:text/plain;base64,AAAA''\<rparr>)) \<and>
   getDataUrl sampleServices (inlineRecord\<lparr>data := ''data:text/plain;base64,AAAA''\<rparr>) initially
     = (Inr ''data:text/plain;base64,AAAA'', initially) \<and>
   getDataUrl sampleServices inlineRecord initially
     = (Inr ''data:application/octet-stream;base64,AAAA'',
        \<lparr>world = 0, calls = [GetAsBuffer inlineRecord (Inr (replicate 3 0))]\<rparr>) \<and>
   getDataUrl sampleServices
       (inlineRecord\<lparr>data := ''data:application/octet-stream;base64,AAAA''\<rparr>) initially
     = (Inr ''data:application/octet-stream;base64,AAAA'', initially)"
proof -
  note unchanged = getDataUrl_idempotent[THEN conjunct1, rule_format]
  note again = getDataUrl_idempotent[THEN conjunct2, rule_format, THEN conjunct2]
  have p: "prefix ''data:'' (data (inlineRecord\<lparr>data := ''data:text/plain;base64,AAAA''\<rparr>))"
    by simp
  have run: "getDataUrl sampleServices inlineRecord initially
     = (Inr ''data:application/octet-stream;base64,AAAA'',
        \<lparr>world = 0, calls = [GetAsBuffer inlineRecord (Inr (replicate 3 0))]\<rparr>)"
    by (simp add: getDataUrl_def andThen_def external_def returns_def Let_def
        sampleServices_def inlineRecord_def initially_def replicate_4_A)
  show ?thesis
    using p unchanged[OF p, of sampleServices initially] run again[OF run, of initially]
    by simp
qed

text \<open>
  C8. On a record whose data does not begin with \<open>data:\<close>, \<^verbatim>\<open>getDataUrl\<close> makes one
  call, \<^verbatim>\<open>getAsBuffer\<close> on the record. When the store answers with a buffer, the result
  is \<open>data:\<close>, the MIME type, \<open>;base64,\<close> and the encoded buffer, where the MIME type
  is \<open>application/octet-stream\<close> if the record's is absent or empty, and the record's
  otherwise. When the store throws, that error is thrown.
\<close>

theorem getDataUrl_fetch:
  assumes "\<not> prefix ''data:'' (data b)"
  shows "(\<forall>buffer w. getAsBuffer env b (world st) = (Inr buffer, w) \<longrightarrow>
            (\<exists>m. getDataUrl env b st =
                (Inr (''data:'' @ m @ '';base64,'' @ bufferToString env buffer),
                 \<lparr>world = w, calls = calls st @ [GetAsBuffer b (Inr buffer)]\<rparr>) \<and>
              (mimeType b = None \<longrightarrow> m = ''application/octet-stream'') \<and>
              (mimeType b = Some [] \<longrightarrow> m = ''application/octet-stream'') \<and>
              (\<forall>t. mimeType b = Some t \<and> t \<noteq> [] \<longrightarrow> m = t))) \<and>
         (\<forall>e w. getAsBuffer env b (world st) = (Inl e, w) \<longrightarrow>
            getDataUrl env b st = (Inl e, \<lparr>world = w, calls = calls st @ [GetAsBuffer b (Inl e)]\<rparr>))"
  using assms
  by (auto simp: getDataUrl_def returns_def andThen_def external_def Let_def)

theorem getDataUrl_fetch_witness:
  "\<not> prefix ''data:'' (data inlineRecord) \<and>
   getAsBuffer sampleServices inlineRecord (world initially) = (Inr (replicate 3 0), 0) \<and>
   mimeType inlineRecord = Some [] \<and>
   getDataUrl sampleServices inlineRecord initially
     = (Inr ''data:application/octet-stream;base64,AAAA'',
        \<lparr>world = 0, calls = [GetAsBuffer inlineRecord (Inr (replicate 3 0))]\<rparr>) \<and>
   \<not> prefix ''data:'' (data externalRecord) \<and>
   mimeType externalRecord = Some ''text/plain'' \<and>
   fst (getDataUrl sampleServices externalRecord initially)
     = Inr ''data:text/plain;base64,AAAA'' \<and>
   \<not> prefix ''data:'' (data emptyRecord) \<and>
   mimeType emptyRecord = None \<and>
   fst (getDataUrl sampleServices emptyRecord initially)
     = Inr ''data:application/octet-stream;base64,''"
proof -
  have n1: "\<not> prefix ''data:'' (data inlineRecord)"
    and n2: "\<not> prefix ''data:'' (data externalRecord)"
    and n3: "\<not> prefix ''data:'' (data emptyRecord)"
    by (simp_all add: inlineRecord_def externalRecord_def emptyRecord_def)
  have b1: "getAsBuffer sampleServices inlineRecord (world initially) = (Inr (replicate 3 0), 0)"
    and b2: "getAsBuffer sampleServices externalRecord (world initially) = (Inr (replicate 3 0), 0)"
    and b3: "getAsBuffer sampleServices emptyRecord (world initially) = (Inr [], 0)"
    by (simp_all add: sampleServices_def inlineRecord_def externalRecord_def emptyRecord_def
        initially_def)
  have m1: "mimeType inlineRecord = Some []"
    and m2: "mimeType externalRecord = Some ''text/plain'' \<and> ''text/plain'' \<noteq> []"
    and m3: "mimeType emptyRecord = None"
    by (simp_all add: inlineRecord_def externalRecord_def emptyRecord_def)
  have enc: "bufferToString sampleServices (replicate 3 0) = ''AAAA''"
    by (simp add: sampleServices_def replicate_4_A)
  from getDataUrl_fetch[OF n1, of sampleServices initially, THEN conjunct1, rule_format, OF b1]
  obtain m where
    r1: "getDataUrl sampleServices inlineRecord initially =
          (Inr (''data:'' @ m @ '';base64,'' @ bufferToString sampleServices (replicate 3 0)),
           \<lparr>world = 0, calls = calls initially @ [GetAsBuffer inlineRecord (Inr (replicate 3 0))]\<rparr>)"
    and d1: "mimeType inlineRecord = Some [] \<longrightarrow> m = ''application/octet-stream''"
    by blast
  from getDataUrl_fetch[OF n2, of sampleServices initially, THEN conjunct1, rule_format, OF b2]
  obtain m' where
    r2: "getDataUrl sampleServices externalRecord initially =
          (Inr (''data:'' @ m' @ '';base64,'' @ bufferToString sampleServices (replicate 3 0)),
           \<lparr>world = 0, calls = calls initially @ [GetAsBuffer externalRecord (Inr (replicate 3 0))]\<rparr>)"
    and d2: "\<forall>t. mimeType externalRecord = Some t \<and> t \<noteq> [] \<longrightarrow> m' = t"
    by blast
  from getDataUrl_fetch[OF n3, of sampleServices initially, THEN conjunct1, rule_format, OF b3]
  obtain mt where
    r3: "getDataUrl sampleServices emptyRecord initially =
          (Inr (''data:'' @ mt @ '';base64,'' @ bufferToString sampleServices []),
           \<lparr>world = 0, calls = calls initially @ [GetAsBuffer emptyRecord (Inr [])]\<rparr>)"
    and d3: "mimeType emptyRecord = None \<longrightarrow> mt = ''application/octet-stream''"
    by (elim exE conjE) (rule that)
  from d3 m3 have e3: "mt = ''application/octet-stream''" by simp
  have enc0: "bufferToString sampleServices [] = []"
    by (simp add: sampleServices_def)
  from d1 m1 have e1: "m = ''application/octet-stream''" by simp
  from d2 m2 have e2: "m' = ''text/plain''" by blast
  show ?thesis
    using n1 n2 n3 b1 m1 m2 m3 r1 r2 r3 e1 e2 e3 enc enc0 by (simp add: initially_def)
qed

section \<open>Deletion\<close>

text \<open>
  C5, as the code has it. \<^verbatim>\<open>deleteAttachments\<close> on a list without a record that bears
  an id (the empty list included) still makes exactly one call to the binary store,
  \<^verbatim>\<open>deleteManyByBinaryDataId\<close> with the empty list of ids, and its outcome is the
  outcome of that call.
\<close>

theorem deleteAttachments_no_ids:
  assumes "\<forall>a \<in> set attachmentList. \<not> truthy (id' a)"
  shows "\<exists>r w. deleteManyByBinaryDataId env [] (world st) = (r, w) \<and>
           deleteAttachments env attachmentList st =
             (r, \<lparr>world = w, calls = calls st @ [DeleteManyByBinaryDataId [] r]\<rparr>)"
proof -
  have ids: "concat (map (\<lambda>a. if truthy (id' a) then [the (id' a)] else []) attachmentList) = []"
    using assms by (induction attachmentList) auto
  show ?thesis
    unfolding deleteAttachments_def Let_def ids
    by (cases "deleteManyByBinaryDataId env [] (world st)") (simp add: external_def)
qed

theorem deleteAttachments_no_ids_witness:
  "\<not> truthy (id' inlineRecord) \<and> \<not> truthy (id' emptyRecord) \<and>
   deleteAttachments sampleServices [inlineRecord, emptyRecord] initially =
     (Inr (), \<lparr>world = 0, calls = [DeleteManyByBinaryDataId [] (Inr ())]\<rparr>)"
proof -
  have none: "\<forall>a \<in> set [inlineRecord, emptyRecord]. \<not> truthy (id' a)"
    by (simp add: inlineRecord_def emptyRecord_def)
  from deleteAttachments_no_ids[OF none, of sampleServices initially] none
  show ?thesis
    by (simp add: sampleServices_def initially_def)
qed

text \<open>
  C5, as stated, fails: on the empty list the log gains a
  \<^verbatim>\<open>deleteManyByBinaryDataId\<close> entry, so the binary store is called.
\<close>

theorem deleteAttachments_empty_list_calls_store:
  "deleteAttachments sampleServices [] initially =
     (Inr (), \<lparr>world = 0, calls = [DeleteManyByBinaryDataId [] (Inr ())]\<rparr>) \<and>
   calls (snd (deleteAttachments sampleServices [] initially)) \<noteq> calls initially"
  by (simp add: deleteAttachments_def external_def sampleServices_def initially_def)

section \<open>File names and extensions\<close>

text \<open>
  C10. For the record that \<^verbatim>\<open>processMessageAttachment\<close> and
  \<^verbatim>\<open>processKnowledgeItemAttachment\<close> build and hand to the binary store (last two
  conjuncts): when the sanitized file name has no dot, the file extension is the whole
  sanitized name; and the file extension is absent exactly when the sanitized name is.
\<close>

theorem fileExtension_without_dot:
  "(\<forall>name. sanitizeFilename env (att_fileName a) = Some name \<and> CHR ''.'' \<notin> set name \<longrightarrow>
      fileName (newBinaryData env a buffer) = Some name \<and>
      fileExtension (newBinaryData env a buffer) = Some name) \<and>
   (fileExtension (newBinaryData env a buffer) = None
      \<longleftrightarrow> sanitizeFilename env (att_fileName a) = None) \<and>
   (\<exists>r. calls (snd (processMessageAttachment env sessionId messageId a buffer st))
       = calls st @ [Store (messageLocation sessionId messageId) buffer
                       (newBinaryData env a buffer) r]) \<and>
   (\<exists>r. calls (snd (processKnowledgeItemAttachment env knowledgeItemId a buffer st))
       = calls st @ [Store (knowledgeItemLocation knowledgeItemId) buffer
                       (newBinaryData env a buffer) r])"
  by (auto simp: newBinaryData_def Let_def pop_def split_dot_nonempty split_dot_no_dot
        processMessageAttachment_def processKnowledgeItemAttachment_def external_def
      split: option.splits prod.splits)

theorem fileExtension_without_dot_witness:
  "sanitizeFilename sampleServices (att_fileName readmeAttachment) = Some ''README'' \<and>
   CHR ''.'' \<notin> set ''README'' \<and>
   fileName (newBinaryData sampleServices readmeAttachment (replicate 3 0)) = Some ''README'' \<and>
   fileExtension (newBinaryData sampleServices readmeAttachment (replicate 3 0)) = Some ''README''"
proof -
  have clean: "sanitizeFilename sampleServices (att_fileName readmeAttachment) = Some ''README'' \<and>
      CHR ''.'' \<notin> set ''README''"
    by (simp add: sampleServices_def readmeAttachment_def)
  from fileExtension_without_dot[THEN conjunct1, rule_format, OF clean] clean
  show ?thesis by simp
qed

section \<open>Creating a knowledge item\<close>

lemma deleteAttachments_single_calls:
  "deleteAttachments env [stored] st = (r, st') \<Longrightarrow>
   calls st' = calls st @ [DeleteManyByBinaryDataId (idsOf stored) r]"
  by (cases "id' stored")
     (auto simp: deleteAttachments_def external_def idsOf_def Let_def split: prod.splits)

text \<open>
  C7. Let the attachment of a new knowledge item be stored (the store call returned the
  record \<open>stored\<close>) and let the repository's \<^verbatim>\<open>createKnowledgeItem\<close> then fail with
  \<open>dbError\<close>. Then \<^verbatim>\<open>createKnowledgeItem\<close> calls \<^verbatim>\<open>deleteAttachments\<close> on the
  stored record, which shows in the log as the delete call for the ids of that record. If
  the delete fails, its error is written to the error log and nothing else happens with
  it. In both cases the error thrown to the caller is \<open>dbError\<close>.
\<close>

theorem createKnowledgeItem_rollback:
  assumes id: "uuidv4 env (world st) = (itemId, w1)"
    and stored: "storeKnowledgeItemAttachment env itemId a
                   \<lparr>world = w1, calls = calls st @ [Uuidv4 itemId]\<rparr> = (Inr stored, st2)"
    and insert: "repositoryCreateKnowledgeItem env
                   \<lparr>ki_id = itemId, ki_type = ''attachment'', ownerId = user_id u,
                    ki_attachment = Some stored\<rparr> st2 = (Inl dbError, st3)"
    and cleanup: "deleteAttachments env [stored] st3 = (outcome, st4)"
  shows "fst (createKnowledgeItem env u (Some a) st) = Inl dbError \<and>
         calls (snd (createKnowledgeItem env u (Some a) st)) =
           calls st3 @ [DeleteManyByBinaryDataId (idsOf stored) outcome] @
             (case outcome of
                Inr ok \<Rightarrow> []
              | Inl cleanupError \<Rightarrow>
                  [LoggerError (''Failed to clean up attachment file for knowledge item ''
                     @ itemId @ '': '' @ errorToString env cleanupError)])"
proof -
  from deleteAttachments_single_calls[OF cleanup]
  have log: "calls st4 = calls st3 @ [DeleteManyByBinaryDataId (idsOf stored) outcome]" .
  have run: "createKnowledgeItem env u (Some a) st =
               rollbackStoredAttachment env itemId (Some stored) dbError st3"
    using id stored insert
    by (simp add: createKnowledgeItem_def external_def andThen_def returns_def)
  show ?thesis
  proof (cases outcome)
    case (Inl cleanupError)
    with cleanup log run show ?thesis
      by (simp add: rollbackStoredAttachment_def logged_def)
  next
    case (Inr ok)
    with cleanup log run show ?thesis
      by (simp add: rollbackStoredAttachment_def)
  qed
qed

theorem createKnowledgeItem_rollback_witness:
  "fst (createKnowledgeItem failingServices sampleUser (Some textAttachment) initially)
     = Inl (ExternalError ''SQLITE_CONSTRAINT'') \<and>
   drop 2 (calls (snd (createKnowledgeItem failingServices sampleUser (Some textAttachment)
                         initially)))
     = [EmInsert \<lparr>ki_id = ''item-0'', ki_type = ''attachment'', ownerId = ''user-1'',
                  ki_attachment =
                    Some \<lparr>data = ''filesystem-v2'', mimeType = Some ''text/plain'',
                          fileName = Some ''notes.txt'', fileSize = Some ''3'',
                          fileExtension = Some ''txt'', id' = Some ''filesystem-v2:0''\<rparr>\<rparr>
          (Inl (ExternalError ''SQLITE_CONSTRAINT'')),
        DeleteManyByBinaryDataId [''filesystem-v2:0''] (Inl (ExternalError ''ENOENT'')),
        LoggerError
          ''Failed to clean up attachment file for knowledge item item-0: Error: ENOENT'']"
proof -
  let ?stored = "\<lparr>data = ''filesystem-v2'', mimeType = Some ''text/plain'',
                  fileName = Some ''notes.txt'', fileSize = Some ''3'',
                  fileExtension = Some ''txt'', id' = Some ''filesystem-v2:0''\<rparr>"
  let ?item = "\<lparr>ki_id = ''item-0'', ki_type = ''attachment'', ownerId = user_id sampleUser,
                ki_attachment = Some ?stored\<rparr>"
  let ?st1 = "\<lparr>world = 0 :: nat, calls = calls initially @ [Uuidv4 ''item-0'']\<rparr>"
  let ?stEntry = "Store (knowledgeItemLocation ''item-0'') (replicate 3 0)
                  (newBinaryData failingServices textAttachment (replicate 3 0)) (Inr ?stored)"
  let ?st2 = "\<lparr>world = Suc 0, calls = [Uuidv4 ''item-0'', ?stEntry]\<rparr>"
  let ?st3 = "\<lparr>world = Suc 0,
               calls = [Uuidv4 ''item-0'', ?stEntry,
                        EmInsert ?item (Inl (ExternalError ''SQLITE_CONSTRAINT''))]\<rparr>"
  let ?st4 = "\<lparr>world = Suc 0,
               calls = [Uuidv4 ''item-0'', ?stEntry,
                        EmInsert ?item (Inl (ExternalError ''SQLITE_CONSTRAINT'')),
                        DeleteManyByBinaryDataId [''filesystem-v2:0'']
                          (Inl (ExternalError ''ENOENT''))]\<rparr>"
  have id: "uuidv4 failingServices (world initially) = (''item-0'', 0)"
    by (simp add: failingServices_def sampleServices_def initially_def decimal_small)
  have stored: "storeKnowledgeItemAttachment failingServices ''item-0'' textAttachment ?st1
                  = (Inr ?stored, ?st2)"
    by (simp add: storeKnowledgeItemAttachment_def processKnowledgeItemAttachment_def
        external_def failingServices_def sampleServices_def textAttachment_def initially_def
        newBinaryData_def maxKnowledgeItemSizeBytes_def decimal_small pop_def Let_def)
  have insert: "repositoryCreateKnowledgeItem failingServices ?item ?st2
                  = (Inl (ExternalError ''SQLITE_CONSTRAINT''), ?st3)"
    by (simp add: repositoryCreateKnowledgeItem_def andThen_def external_def
        failingServices_def)
  have cleanup: "deleteAttachments failingServices [?stored] ?st3
                   = (Inl (ExternalError ''ENOENT''), ?st4)"
    by (simp add: deleteAttachments_def external_def failingServices_def Let_def)
  from createKnowledgeItem_rollback[OF id stored insert cleanup]
  show ?thesis
    by (simp add: idsOf_def failingServices_def sampleServices_def sampleUser_def)
qed

end
